theory Spec2Isabelle
  imports Complex_Main "HOL-Library.Sublist" "HOL-Library.Log_Nat"
begin

section \<open>Python values\<close>

text \<open>
  A Python \<open>float\<close> is modelled as a \<open>real\<close>, without NaN or infinities. In the text
  score, the image score, the display value and the database the arithmetic is read
  exactly. In the colour interpolation the result of every operation on floats is
  rounded to the nearest double by \<open>round_double\<close> below, because \<open>int()\<close> there turns
  a difference in the last bit into a different channel.
  A Python \<open>str\<close> is a \<open>string\<close>; a \<open>char\<close> stands for one code point below 256.
\<close>

type_synonym pyfloat = real

text \<open>
  Rounding to the nearest IEEE double, a tie going to the even significand. \<open>expo x\<close>
  is the binary exponent of \<open>x\<close>, the \<open>e\<close> with \<open>2 ^ e \<le> \<bar>x\<bar> < 2 ^ (e + 1)\<close>; the
  doubles near \<open>x\<close> are the multiples of \<open>quantum x\<close>, which is \<open>2 ^ (e - 52)\<close> and
  \<open>2 ^ - 1074\<close> in the subnormal range. Overflow is not modelled: no result of the
  interpolation exceeds 255 in absolute value.
\<close>

definition round_half_even :: "real \<Rightarrow> int" where
  "round_half_even x =
     (let f = \<lfloor>x\<rfloor>; d = x - of_int f
      in if d < 1/2 then f else if d > 1/2 then f + 1 else if even f then f else f + 1)"




datatype py_exception =
    IndexError
  | ValueError
  | ZeroDivisionError
  | RequestException
  | HTTPError
  | UnidentifiedImageError
  | OperationalError

text \<open>\<open>str.isspace\<close> on the code points below 256.\<close>

definition is_space :: "char \<Rightarrow> bool" where
  "is_space c =
     (let n = (of_char c :: nat)
      in (9 \<le> n \<and> n \<le> 13) \<or> (28 \<le> n \<and> n \<le> 32) \<or> n = 133 \<or> n = 160)"

text \<open>\<open>str.strip()\<close>: whitespace is dropped at both ends.\<close>

definition strip :: "string \<Rightarrow> string" where
  "strip s = rev (dropWhile is_space (rev (dropWhile is_space s)))"

text \<open>\<open>str.lower()\<close> on the code points below 256: A-Z and the upper-case Latin-1 letters.\<close>

definition lower_char :: "char \<Rightarrow> char" where
  "lower_char c =
     (let n = (of_char c :: nat)
      in if (65 \<le> n \<and> n \<le> 90) \<or> (192 \<le> n \<and> n \<le> 214) \<or> (216 \<le> n \<and> n \<le> 222)
         then char_of (n + 32) else c)"

definition lower :: "string \<Rightarrow> string" where
  "lower s = map lower_char s"

text \<open>\<open>needle in hay\<close> for two strings: \<open>needle\<close> occurs as a contiguous substring.\<close>

fun str_in :: "string \<Rightarrow> string \<Rightarrow> bool" where
  "str_in needle [] = (needle = [])"
| "str_in needle (c # cs) = (prefix needle (c # cs) \<or> str_in needle cs)"

section \<open>The configuration (config.py)\<close>

text \<open>
  The module \<open>config\<close> is imported by every source file and is a parameter here.
  A dict is the list of its items in insertion order, which is the order in which
  \<open>dict.items()\<close> yields them; a dict that is only looked up is a map.
\<close>

record config =
  KEYWORD_WEIGHTS :: "(string \<times> pyfloat) list"
  FALSE_POSITIVE_EXCLUSIONS :: "string \<rightharpoonup> string list"
  FICTION_FAKE_INDICATORS :: "string list"
  REAL_CONTENT_WEIGHTS :: "(string \<times> pyfloat) list"
  SEVERITY_COLOR_ANCHORS :: "(pyfloat \<times> string) list"
  SEVERITY_MIN :: pyfloat
  SEVERITY_MAX :: pyfloat
  IMAGE_RED_PERCENT_TO_SEVERITY :: pyfloat

section \<open>scoring.py: the text score\<close>

text \<open>\<open>_is_false_positive\<close>: the loop over the exclusions of one keyword.\<close>

fun excl_loop :: "string \<Rightarrow> string list \<Rightarrow> bool" where
  "excl_loop text_lower [] = False"
| "excl_loop text_lower (excl # rest) =
     (if str_in excl text_lower then True else excl_loop text_lower rest)"

definition is_false_positive :: "config \<Rightarrow> string \<Rightarrow> string \<Rightarrow> bool" where
  "is_false_positive cfg text keyword =
     (case FALSE_POSITIVE_EXCLUSIONS cfg keyword of
        None \<Rightarrow> False
      | Some excls \<Rightarrow> excl_loop (lower text) excls)"

text \<open>
  \<open>sorted(d.items(), key=lambda x: -x[1])\<close>: Python's \<open>sorted\<close> is stable, as
  \<open>sort_key\<close> is.
\<close>

definition sorted_items :: "(string \<times> pyfloat) list \<Rightarrow> (string \<times> pyfloat) list" where
  "sorted_items d = sort_key (\<lambda>x. - snd x) d"

text \<open>The condition under which the keyword loop adds a weight.\<close>

definition keyword_hit :: "config \<Rightarrow> string \<Rightarrow> string \<Rightarrow> bool" where
  "keyword_hit cfg text_lower keyword =
     (str_in keyword text_lower \<and> \<not> is_false_positive cfg text_lower keyword)"

text \<open>The keyword loop of \<open>score_text\<close>, with its \<open>break\<close>; \<open>total\<close> is the running total.\<close>

fun keyword_loop :: "config \<Rightarrow> string \<Rightarrow> (string \<times> pyfloat) list \<Rightarrow> pyfloat \<Rightarrow> pyfloat" where
  "keyword_loop cfg text_lower [] tot = tot"
| "keyword_loop cfg text_lower ((keyword, weight) # rest) tot =
     (if keyword_hit cfg text_lower keyword
      then (let tot' = tot + weight
            in if tot' \<ge> 1 then tot' else keyword_loop cfg text_lower rest tot')
      else keyword_loop cfg text_lower rest tot)"

text \<open>The total after the loop and \<open>total = min(1.0, total)\<close>, before penalty and bonus.\<close>

definition keyword_total :: "config \<Rightarrow> string \<Rightarrow> pyfloat" where
  "keyword_total cfg text_lower =
     min 1 (keyword_loop cfg text_lower (sorted_items (KEYWORD_WEIGHTS cfg)) 0)"

text \<open>The loop over the fiction indicators, with its \<open>break\<close>.\<close>

fun fiction_loop :: "string \<Rightarrow> string list \<Rightarrow> pyfloat \<Rightarrow> pyfloat" where
  "fiction_loop text_lower [] tot = tot"
| "fiction_loop text_lower (indicator # rest) tot =
     (if str_in indicator text_lower then tot * 0.25
      else fiction_loop text_lower rest tot)"

text \<open>The loop over the real-content phrases, with its \<open>break\<close>.\<close>

fun bonus_loop :: "string \<Rightarrow> (string \<times> pyfloat) list \<Rightarrow> pyfloat \<Rightarrow> pyfloat" where
  "bonus_loop text_lower [] tot = tot"
| "bonus_loop text_lower ((phrase, bonus) # rest) tot =
     (if str_in phrase text_lower then min 1 (tot + bonus)
      else bonus_loop text_lower rest tot)"

definition score_text :: "config \<Rightarrow> string \<Rightarrow> pyfloat" where
  "score_text cfg text =
     (if text = [] \<or> strip text = [] then 0
      else
        let text_lower = lower text;
            tot = keyword_total cfg text_lower;
            tot = fiction_loop text_lower (FICTION_FAKE_INDICATORS cfg) tot;
            tot = bonus_loop text_lower (sorted_items (REAL_CONTENT_WEIGHTS cfg)) tot
        in max 0 (min 1 tot))"

section \<open>utils.py: the image score\<close>

text \<open>
  The network and the image decoder are parameters: \<open>requests.get(url, timeout=6)\<close>
  gives a response or raises, \<open>Image.open(BytesIO(content)).convert("RGB").getdata()\<close>
  gives the pixels or raises.
\<close>

type_synonym pixel = "nat \<times> nat \<times> nat"

record http_response =
  status_code :: nat
  content :: string

record world =
  requests_get :: "string \<Rightarrow> py_exception + http_response"
  image_open_rgb :: "string \<Rightarrow> py_exception + pixel list"

text \<open>\<open>Response.raise_for_status()\<close> raises on the 4xx and 5xx status codes.\<close>

definition raise_for_status :: "http_response \<Rightarrow> py_exception + unit" where
  "raise_for_status resp =
     (if 400 \<le> status_code resp \<and> status_code resp < 600 then Inl HTTPError else Inr ())"

text \<open>\<open>try: body except Exception: handler\<close>.\<close>

definition try_except :: "py_exception + 'a \<Rightarrow> (py_exception \<Rightarrow> py_exception + 'a) \<Rightarrow> py_exception + 'a" where
  "try_except body handler = (case body of Inl e \<Rightarrow> handler e | Inr v \<Rightarrow> Inr v)"

text \<open>Lines 41 to 45 of \<open>_blood_red_percentage\<close>: fetch, check the status, decode.\<close>

definition fetch_pixels :: "world \<Rightarrow> string \<Rightarrow> py_exception + pixel list" where
  "fetch_pixels w url =
     (case requests_get w url of
        Inl e \<Rightarrow> Inl e
      | Inr resp \<Rightarrow>
          (case raise_for_status resp of
             Inl e \<Rightarrow> Inl e
           | Inr _ \<Rightarrow> image_open_rgb w (content resp)))"

text \<open>The loop over the pixels; \<open>count\<close> is the running count.\<close>

fun count_loop :: "pixel list \<Rightarrow> nat \<Rightarrow> nat" where
  "count_loop [] count = count"
| "count_loop ((r, g, b) # rest) count =
     (if r > 140 \<and> g < 110 \<and> b < 110 then count_loop rest (count + 1)
      else if r > 70 \<and> g < 55 \<and> b < 55 \<and> r > g \<and> r > b then count_loop rest (count + 1)
      else count_loop rest count)"

definition pixels_percentage :: "pixel list \<Rightarrow> pyfloat" where
  "pixels_percentage pixels =
     (let tot = length pixels;
          count = count_loop pixels 0
      in if tot > 0 then real count / real tot * 100 else 0)"

definition blood_red_percentage :: "world \<Rightarrow> string \<Rightarrow> py_exception + (bool \<times> pyfloat)" where
  "blood_red_percentage w url =
     try_except
       (case fetch_pixels w url of
          Inl e \<Rightarrow> Inl e
        | Inr pixels \<Rightarrow> Inr (True, pixels_percentage pixels))
       (\<lambda>e. Inr (False, 0))"

text \<open>Python's \<open>/\<close> on floats raises when the divisor is zero.\<close>

definition py_truediv :: "pyfloat \<Rightarrow> pyfloat \<Rightarrow> py_exception + pyfloat" where
  "py_truediv a b = (if b = 0 then Inl ZeroDivisionError else Inr (a / b))"

definition image_gore_score :: "config \<Rightarrow> world \<Rightarrow> string \<Rightarrow> py_exception + pyfloat" where
  "image_gore_score cfg w url =
     try_except
       (case blood_red_percentage w url of
          Inl e \<Rightarrow> Inl e
        | Inr sp \<Rightarrow>
            (let pct = snd sp;
                 cap = max 0.01 (IMAGE_RED_PERCENT_TO_SEVERITY cfg)
             in case py_truediv pct cap of
                  Inl e \<Rightarrow> Inl e
                | Inr q \<Rightarrow> Inr (min 1 q)))
       (\<lambda>e. Inr 0)"

section \<open>scoring.py: image, article, display value and colour\<close>

definition score_image_from_url :: "config \<Rightarrow> world \<Rightarrow> string \<Rightarrow> py_exception + pyfloat" where
  "score_image_from_url cfg w url =
     (case image_gore_score cfg w url of
        Inl e \<Rightarrow> Inl e
      | Inr raw \<Rightarrow> Inr (min 1 (max 0 raw)))"

text \<open>
  An article is the dict of the News API; each of the three keys read here may be
  missing or hold \<open>None\<close> (both \<open>None\<close> below) or hold a string.
\<close>

record article =
  title :: "string option"
  description :: "string option"
  urlToImage :: "string option"

text \<open>\<open>x or ""\<close> for a string or \<open>None\<close>.\<close>

definition or_empty :: "string option \<Rightarrow> string" where
  "or_empty x = (case x of None \<Rightarrow> [] | Some s \<Rightarrow> (if s = [] then [] else s))"

definition score_article :: "config \<Rightarrow> world \<Rightarrow> article \<Rightarrow> bool \<Rightarrow> py_exception + pyfloat" where
  "score_article cfg w art include_image =
     (let title_s = or_empty (title art);
          desc = or_empty (description art);
          text_score = score_text cfg (title_s @ '' '' @ desc)
      in if \<not> include_image then Inr text_score
         else (case urlToImage art of
                 None \<Rightarrow> Inr text_score
               | Some image_url \<Rightarrow>
                   if image_url = [] then Inr text_score
                   else (case score_image_from_url cfg w image_url of
                           Inl e \<Rightarrow> Inl e
                         | Inr img_score \<Rightarrow> Inr (max text_score img_score))))"

text \<open>
  \<open>round(score, 2)\<close>: the nearest multiple of 1/100, a tie going to the even multiple.
\<close>

definition py_round2 :: "pyfloat \<Rightarrow> pyfloat" where
  "py_round2 x = of_int (round_half_even (x * 100)) / 100"

definition clamp_severity_display :: "config \<Rightarrow> pyfloat \<Rightarrow> pyfloat" where
  "clamp_severity_display cfg score =
     max (SEVERITY_MIN cfg) (min (SEVERITY_MAX cfg) (py_round2 score))"









text \<open>The format \<open>02X\<close>: upper-case hexadecimal, zero-padded to two characters with the sign.\<close>

definition hex_upper_digit :: "nat \<Rightarrow> char" where
  "hex_upper_digit d = (if d < 10 then char_of (48 + d) else char_of (55 + d))"

fun hex_upper :: "nat \<Rightarrow> string" where
  "hex_upper n =
     (if n < 16 then [hex_upper_digit n]
      else hex_upper (n div 16) @ [hex_upper_digit (n mod 16)])"







section \<open>database.py: the findings table\<close>

text \<open>
  The database file is a state: the rows of the table \<open>findings\<close>, or \<open>None\<close> before
  \<open>init_db\<close> has created the table, and the counter of \<open>AUTOINCREMENT\<close>.
\<close>

record finding =
  row_id :: nat
  row_title :: string
  row_url :: string
  row_source_name :: string
  row_media_type :: string
  row_severity_score :: pyfloat
  row_published_at :: string
  row_snippet :: string
  row_fetched_at :: string

record db =
  findings :: "finding list option"
  seq :: nat

text \<open>\<open>x or d\<close> for a string or \<open>None\<close>.\<close>

definition or_default :: "string option \<Rightarrow> string \<Rightarrow> string" where
  "or_default x d = (case x of None \<Rightarrow> d | Some s \<Rightarrow> (if s = [] then d else s))"

text \<open>
  \<open>INSERT OR REPLACE\<close> under \<open>UNIQUE(url)\<close>: the rows with the new row's url are deleted,
  then the new row is stored under a fresh id. The statement fails when the table is
  missing; \<open>now\<close> is the clock's \<open>datetime.utcnow().isoformat() + "Z"\<close>. The fresh id
  is the successor of the counter, which stands for the largest id given so far.
\<close>

definition insert_finding ::
  "db \<Rightarrow> string \<Rightarrow> string \<Rightarrow> string option \<Rightarrow> string option \<Rightarrow> pyfloat \<Rightarrow>
   string option \<Rightarrow> string option \<Rightarrow> string option \<Rightarrow> py_exception + db" where
  "insert_finding d now url source_name media_type severity_score title_arg published_at snippet =
     (case findings d of
        None \<Rightarrow> Inl OperationalError
      | Some rows \<Rightarrow>
          (let new_row = \<lparr> row_id = seq d + 1,
                 row_title = take 500 (or_default title_arg []),
                 row_url = take 2000 url,
                 row_source_name = take 100 (or_default source_name ''unknown''),
                 row_media_type = take 50 (or_default media_type ''unknown''),
                 row_severity_score = max 0 (min 1 severity_score),
                 row_published_at = take 50 (or_default published_at []),
                 row_snippet = take 2000 (or_default snippet []),
                 row_fetched_at = now \<rparr>;
               kept = filter (\<lambda>r. row_url r \<noteq> row_url new_row) rows
           in Inr \<lparr> findings = Some (kept @ [new_row]), seq = seq d + 1 \<rparr>))"

section \<open>Notions used in the statements\<close>

text \<open>The configuration from which one keyword has been taken out of \<open>KEYWORD_WEIGHTS\<close>.\<close>

definition without_keyword :: "config \<Rightarrow> string \<Rightarrow> config" where
  "without_keyword cfg k =
     cfg\<lparr> KEYWORD_WEIGHTS := filter (\<lambda>x. fst x \<noteq> k) (KEYWORD_WEIGHTS cfg) \<rparr>"

text \<open>
  The two predicates on a pixel as the specification words them; \<open>count_loop\<close> above is
  the code's own test, and the two are compared below.
\<close>

definition bright_red :: "pixel \<Rightarrow> bool" where
  "bright_red p = (case p of (r, g, b) \<Rightarrow> r > 140 \<and> g < 110 \<and> b < 110)"

definition dark_red :: "pixel \<Rightarrow> bool" where
  "dark_red p = (case p of (r, g, b) \<Rightarrow> r > 70 \<and> g < 55 \<and> b < 55 \<and> r > g \<and> r > b)"

definition blood_like :: "pixel \<Rightarrow> bool" where
  "blood_like p = (bright_red p \<or> dark_red p)"

text \<open>The invariant of the table: every stored severity lies in [0, 1].\<close>

definition severities_in_range :: "db \<Rightarrow> bool" where
  "severities_in_range d =
     (case findings d of
        None \<Rightarrow> True
      | Some rows \<Rightarrow> \<forall>r \<in> set rows. 0 \<le> row_severity_score r \<and> row_severity_score r \<le> 1)"






section \<open>Example data\<close>

text \<open>A small configuration on which the theorems below are run.\<close>

definition example_config :: config where
  "example_config =
     \<lparr> KEYWORD_WEIGHTS = [(''blood'', 0.3), (''gore'', 0.6), (''murder'', 0.7)],
       FALSE_POSITIVE_EXCLUSIONS = [''blood'' \<mapsto> [''blood orange'', ''blood test'']],
       FICTION_FAKE_INDICATORS = [''movie'', ''film''],
       REAL_CONTENT_WEIGHTS = [(''cctv'', 0.1), (''real footage'', 0.2)],
       SEVERITY_COLOR_ANCHORS = [(0, ''#00ff00''), (0.5, ''#ffff00''), (1, ''#ff0000'')],
       SEVERITY_MIN = 0.1,
       SEVERITY_MAX = 1,
       IMAGE_RED_PERCENT_TO_SEVERITY = 25 \<rparr>"

text \<open>
  A network with four images: one all bright red, one with 7 red pixels out of 40, one
  answered by status 404, and one whose bytes are no image; every other url fails.
\<close>

definition example_world :: world where
  "example_world =
     \<lparr> requests_get = (\<lambda>url.
         if url = ''http://img/red.png'' then Inr \<lparr> status_code = 200, content = ''RED'' \<rparr>
         else if url = ''http://img/part.png'' then Inr \<lparr> status_code = 200, content = ''PART'' \<rparr>
         else if url = ''http://img/gone.png'' then Inr \<lparr> status_code = 404, content = ''RED'' \<rparr>
         else if url = ''http://img/junk.png'' then Inr \<lparr> status_code = 200, content = ''junk'' \<rparr>
         else Inl RequestException),
       image_open_rgb = (\<lambda>bytes.
         if bytes = ''RED'' then Inr (replicate 4 (200, 10, 10))
         else if bytes = ''PART'' then Inr (replicate 7 (200, 10, 10) @ replicate 33 (0, 0, 0))
         else Inl UnidentifiedImageError) \<rparr>"

text \<open>A network that answers every request with status 300 and the all-red image.\<close>

definition redirect_world :: world where
  "redirect_world =
     \<lparr> requests_get = (\<lambda>url. Inr \<lparr> status_code = 300, content = ''RED'' \<rparr>),
       image_open_rgb = (\<lambda>bytes.
         if bytes = ''RED'' then Inr (replicate 4 (200, 10, 10))
         else Inl UnidentifiedImageError) \<rparr>"

definition example_article :: article where
  "example_article =
     \<lparr> title = Some ''Blood'', description = None, urlToImage = Some ''http://img/part.png'' \<rparr>"

text \<open>The example configuration with a display scale that ends at 2.\<close>

definition wide_display_config :: config where
  "wide_display_config = example_config\<lparr> SEVERITY_MAX := 2 \<rparr>"

text \<open>A database that holds one finding.\<close>

definition example_db :: db where
  "example_db =
     \<lparr> findings = Some [\<lparr> row_id = 1, row_title = ''old'', row_url = ''http://a'',
           row_source_name = ''news'', row_media_type = ''text'', row_severity_score = 0.4,
           row_published_at = [], row_snippet = [], row_fetched_at = ''2024-01-01T00:00:00Z'' \<rparr>],
       seq = 1 \<rparr>"



section \<open>Properties of the text score\<close>

lemma strip_all_space:
  assumes "\<forall>c \<in> set s. is_space c"
  shows "strip s = []"
  using assms by (auto simp: strip_def dest: set_dropWhileD)

lemma sorted_items_desc: "sorted_wrt (\<lambda>x y. snd x \<ge> snd y) (sorted_items d)"
proof -
  have "sorted (map (\<lambda>x. - snd x) (sorted_items d))"
    by (simp add: sorted_items_def)
  then show ?thesis
    by (simp add: sorted_map)
qed


lemma set_sorted_items: "set (sorted_items d) = set d"
  by (simp add: sorted_items_def)





lemma lower_char_idem: "lower_char (lower_char c) = lower_char c"
proof -
  have "of_char c < (256 :: nat)" by simp
  then show ?thesis
    by (auto simp: lower_char_def Let_def)
qed

lemma lower_idem: "lower (lower s) = lower s"
  by (simp add: lower_def lower_char_idem)

lemma excl_loop_iff: "excl_loop t excls \<longleftrightarrow> (\<exists>e \<in> set excls. str_in e t)"
  by (induction excls) auto

lemma keyword_loop_drop:
  assumes "\<not> keyword_hit cfg t k"
  shows "keyword_loop cfg t (filter (\<lambda>x. fst x \<noteq> k) xs) tot = keyword_loop cfg t xs tot"
  using assms
proof (induction xs arbitrary: tot)
  case Nil
  then show ?case by simp
next
  case (Cons x xs)
  obtain k' w' where x: "x = (k', w')" by (cases x)
  show ?case
    using Cons x by (cases "k' = k") (simp_all add: Let_def)
qed

lemma keyword_hit_cong:
  "FALSE_POSITIVE_EXCLUSIONS cfg' = FALSE_POSITIVE_EXCLUSIONS cfg \<Longrightarrow>
   keyword_hit cfg' t k = keyword_hit cfg t k"
  by (simp add: keyword_hit_def is_false_positive_def)

lemma keyword_loop_cong:
  "FALSE_POSITIVE_EXCLUSIONS cfg' = FALSE_POSITIVE_EXCLUSIONS cfg \<Longrightarrow>
   keyword_loop cfg' t xs tot = keyword_loop cfg t xs tot"
proof (induction xs arbitrary: tot)
  case Nil
  then show ?case by simp
next
  case (Cons x xs)
  obtain k' w' where x: "x = (k', w')" by (cases x)
  show ?case
    using Cons x keyword_hit_cong [of cfg' cfg t k'] by (simp add: Let_def)
qed

text \<open>
  C5: let a keyword occur in the lower-cased text, and let one of the exclusions
  configured for it occur there too. Then the loop passes over the keyword without
  adding its weight and goes on with the keywords after it, and the total and the
  score are those of the configuration without the keyword.
\<close>

theorem exclusion_zero_weight:
  assumes "str_in k (lower s)"
    and "FALSE_POSITIVE_EXCLUSIONS cfg k = Some excls"
    and "excl \<in> set excls" and "str_in excl (lower s)"
  shows "keyword_loop cfg (lower s) ((k, w) # rest) tot = keyword_loop cfg (lower s) rest tot
    \<and> keyword_total cfg (lower s) = keyword_total (without_keyword cfg k) (lower s)
    \<and> score_text cfg s = score_text (without_keyword cfg k) s"
proof -
  have fp: "is_false_positive cfg (lower s) k"
    using assms(2,3,4) by (auto simp: is_false_positive_def lower_idem excl_loop_iff)
  then have nh: "\<not> keyword_hit cfg (lower s) k"
    by (simp add: keyword_hit_def)
  have step: "keyword_loop cfg (lower s) ((k, w) # rest) tot = keyword_loop cfg (lower s) rest tot"
    using nh by simp
  have "sorted_items (filter (\<lambda>x. fst x \<noteq> k) (KEYWORD_WEIGHTS cfg))
      = filter (\<lambda>x. fst x \<noteq> k) (sorted_items (KEYWORD_WEIGHTS cfg))"
    by (simp add: sorted_items_def filter_sort)
  then have tot: "keyword_total cfg (lower s) = keyword_total (without_keyword cfg k) (lower s)"
    using keyword_loop_drop [OF nh]
      keyword_loop_cong [of "without_keyword cfg k" cfg]
    by (simp add: keyword_total_def without_keyword_def)
  have "score_text cfg s = score_text (without_keyword cfg k) s"
    using tot by (simp add: score_text_def without_keyword_def Let_def)
  with step tot show ?thesis by blast
qed

theorem exclusion_zero_weight_witness:
  "str_in ''blood'' (lower ''Blood orange gore'')
   \<and> FALSE_POSITIVE_EXCLUSIONS example_config ''blood'' = Some [''blood orange'', ''blood test'']
   \<and> ''blood orange'' \<in> set [''blood orange'', ''blood test'']
   \<and> str_in ''blood orange'' (lower ''Blood orange gore'')
   \<and> keyword_loop example_config (lower ''Blood orange gore'') [(''blood'', 0.3), (''gore'', 0.6)] 0
       = keyword_loop example_config (lower ''Blood orange gore'') [(''gore'', 0.6)] 0
   \<and> score_text example_config ''Blood orange gore''
       = score_text (without_keyword example_config ''blood'') ''Blood orange gore''
   \<and> score_text example_config ''Blood orange gore'' = 0.6"
proof -
  have h1: "str_in ''blood'' (lower ''Blood orange gore'')"
    by code_simp
  have h2: "FALSE_POSITIVE_EXCLUSIONS example_config ''blood'' = Some [''blood orange'', ''blood test'']"
    by (simp add: example_config_def)
  have h3: "''blood orange'' \<in> set [''blood orange'', ''blood test'']"
    by simp
  have h4: "str_in ''blood orange'' (lower ''Blood orange gore'')"
    by code_simp
  have v: "score_text example_config ''Blood orange gore'' = 0.6"
    by code_simp
  show ?thesis
    using exclusion_zero_weight [OF h1 h2 h3 h4, of "0.3" "[(''gore'', 0.6)]" 0] h1 h2 h3 h4 v
    by blast
qed

lemma fiction_loop_if:
  "fiction_loop t inds tot = (if \<exists>i \<in> set inds. str_in i t then tot * 0.25 else tot)"
  by (induction inds) auto

lemma fiction_loop_first:
  "str_in i t \<Longrightarrow> fiction_loop t (pre @ i # post) tot = fiction_loop t (pre @ [i]) tot"
  by (induction pre) auto

lemma bonus_loop_find:
  "bonus_loop t xs tot =
     (case find (\<lambda>x. str_in (fst x) t) xs of None \<Rightarrow> tot | Some x \<Rightarrow> min 1 (tot + snd x))"
  by (induction xs) auto

lemma find_sorted_max:
  assumes "sorted_wrt (\<lambda>x y. snd x \<ge> snd y) xs" and "find P xs = Some x"
    and "y \<in> set xs" and "P y"
  shows "snd y \<le> (snd x :: real)"
  using assms
  by (induction xs) (auto split: if_splits)

text \<open>
  C6: the penalty loop multiplies the total by 0.25 once when some fiction indicator
  occurs in the text, however many do, and leaves it alone otherwise; the indicators
  after the first one that occurs play no part. The bonus loop runs over the phrases
  in descending order of bonus and adds the bonus of the first phrase that occurs,
  which is the largest bonus among the phrases that occur, and cuts the sum to at most
  1; it adds nothing when no phrase occurs. The score is the clamp of the total that
  these two steps leave, and is at most 1.
\<close>

theorem penalty_and_bonus_once:
  "fiction_loop t inds tot = (if \<exists>i \<in> set inds. str_in i t then tot * 0.25 else tot)
   \<and> (str_in i t \<longrightarrow> fiction_loop t (pre @ i # post) tot = fiction_loop t (pre @ [i]) tot)
   \<and> sorted_wrt (\<lambda>x y. snd x \<ge> snd y) (sorted_items d)
   \<and> bonus_loop t (sorted_items d) tot =
       (case find (\<lambda>x. str_in (fst x) t) (sorted_items d) of
          None \<Rightarrow> tot
        | Some x \<Rightarrow> min 1 (tot + snd x))
   \<and> (find (\<lambda>x. str_in (fst x) t) (sorted_items d) = Some x \<longrightarrow>
        (\<forall>y \<in> set d. str_in (fst y) t \<longrightarrow> snd y \<le> snd x))
   \<and> (tot \<le> 1 \<longrightarrow> bonus_loop t (sorted_items d) tot \<le> 1)
   \<and> (s \<noteq> [] \<and> strip s \<noteq> [] \<longrightarrow>
        score_text cfg s =
          (let base = keyword_total cfg (lower s);
               penalised = (if \<exists>i \<in> set (FICTION_FAKE_INDICATORS cfg). str_in i (lower s)
                            then base * 0.25 else base)
           in max 0 (min 1
                (case find (\<lambda>x. str_in (fst x) (lower s)) (sorted_items (REAL_CONTENT_WEIGHTS cfg)) of
                   None \<Rightarrow> penalised
                 | Some x \<Rightarrow> min 1 (penalised + snd x)))))
   \<and> score_text cfg s \<le> 1"
proof -
  have mx: "find (\<lambda>x. str_in (fst x) t) (sorted_items d) = Some x \<longrightarrow>
        (\<forall>y \<in> set d. str_in (fst y) t \<longrightarrow> snd y \<le> snd x)"
    using find_sorted_max [OF sorted_items_desc, of "\<lambda>x. str_in (fst x) t" d x]
    by (simp add: set_sorted_items)
  have le: "tot \<le> 1 \<longrightarrow> bonus_loop t (sorted_items d) tot \<le> 1"
    by (simp add: bonus_loop_find split: option.split)
  have sc: "s \<noteq> [] \<and> strip s \<noteq> [] \<longrightarrow>
        score_text cfg s =
          (let base = keyword_total cfg (lower s);
               penalised = (if \<exists>i \<in> set (FICTION_FAKE_INDICATORS cfg). str_in i (lower s)
                            then base * 0.25 else base)
           in max 0 (min 1
                (case find (\<lambda>x. str_in (fst x) (lower s)) (sorted_items (REAL_CONTENT_WEIGHTS cfg)) of
                   None \<Rightarrow> penalised
                 | Some x \<Rightarrow> min 1 (penalised + snd x))))"
    by (simp only: score_text_def Let_def fiction_loop_if bonus_loop_find) simp
  have top: "score_text cfg s \<le> 1"
    by (simp add: score_text_def Let_def)
  show ?thesis
    using fiction_loop_if [of t inds tot] fiction_loop_first [of i t pre post tot]
      sorted_items_desc [of d] bonus_loop_find [of t "sorted_items d" tot] mx le sc top
    by blast
qed

theorem penalty_and_bonus_once_witness:
  "str_in ''movie'' ''gore movie film''
   \<and> fiction_loop ''gore movie film'' [''movie'', ''film''] 0.6 = 0.15
   \<and> find (\<lambda>x. str_in (fst x) ''cctv real footage'') (sorted_items [(''cctv'', 0.1), (''real footage'', 0.2)])
       = Some (''real footage'', 0.2)
   \<and> (''cctv'', 0.1 :: real) \<in> set [(''cctv'', 0.1), (''real footage'', 0.2)]
   \<and> str_in ''cctv'' ''cctv real footage''
   \<and> bonus_loop ''cctv real footage'' (sorted_items [(''cctv'', 0.1), (''real footage'', 0.2)]) 0.15 = 0.35
   \<and> bonus_loop ''cctv real footage'' (sorted_items [(''cctv'', 0.1), (''real footage'', 0.2)]) 0.15 \<le> 1
   \<and> score_text example_config ''gore movie film cctv real footage'' = 0.35"
proof -
  let ?t = "''cctv real footage''"
  let ?d = "[(''cctv'', 0.1 :: real), (''real footage'', 0.2)]"
  let ?s = "''gore movie film cctv real footage''"
  have h1: "str_in ''movie'' ''gore movie film''"
    by code_simp
  have h2: "find (\<lambda>x. str_in (fst x) ?t) (sorted_items ?d) = Some (''real footage'', 0.2)"
    by code_simp
  have h3: "(''cctv'', 0.1) \<in> set ?d \<and> str_in ''cctv'' ?t"
    by code_simp
  have h4: "(0.15 :: real) \<le> 1"
    by simp
  have h5: "?s \<noteq> [] \<and> strip ?s \<noteq> []"
    by code_simp
  note a = penalty_and_bonus_once [of "''gore movie film''" "[''movie'', ''film'']" "0.6"
      "''movie''" "[]" "[''film'']"]
  note b = penalty_and_bonus_once [of ?t _ "0.15" _ _ _ ?d "(''real footage'', 0.2)" ?s example_config]
  have f: "fiction_loop ''gore movie film'' [''movie'', ''film''] 0.6 = 0.15"
    using a h1 by simp
  have g: "bonus_loop ?t (sorted_items ?d) 0.15 = 0.35"
    using b h2 by simp
  have g': "bonus_loop ?t (sorted_items ?d) 0.15 \<le> 1"
    using b h4 by blast
  have "snd (''cctv'', 0.1 :: real) \<le> snd (''real footage'', 0.2 :: real)"
    using b h2 h3 by fastforce
  have "score_text example_config ?s =
          (let base = keyword_total example_config (lower ?s);
               penalised = (if \<exists>i \<in> set (FICTION_FAKE_INDICATORS example_config). str_in i (lower ?s)
                            then base * 0.25 else base)
           in max 0 (min 1
                (case find (\<lambda>x. str_in (fst x) (lower ?s)) (sorted_items (REAL_CONTENT_WEIGHTS example_config)) of
                   None \<Rightarrow> penalised
                 | Some x \<Rightarrow> min 1 (penalised + snd x))))"
    using b h5 by blast
  also have "\<dots> = 0.35"
    by code_simp
  finally have sc: "score_text example_config ?s = 0.35" .
  show ?thesis
    using h1 h2 h3 f g g' sc by blast
qed

text \<open>
  C7: for every configuration and every string, \<open>score_text\<close> lies in [0, 1]; the empty
  string scores 0, and so does every string made of whitespace only. On any other
  string the value returned is the clamp \<open>max 0 (min 1 total)\<close> of the total left by
  the keyword, penalty and bonus steps.
\<close>

theorem score_text_range:
  "0 \<le> score_text cfg s \<and> score_text cfg s \<le> 1
   \<and> score_text cfg [] = 0
   \<and> ((\<forall>c \<in> set s. is_space c) \<longrightarrow> score_text cfg s = 0)
   \<and> (s \<noteq> [] \<and> strip s \<noteq> [] \<longrightarrow>
        score_text cfg s =
          max 0 (min 1 (bonus_loop (lower s) (sorted_items (REAL_CONTENT_WEIGHTS cfg))
            (fiction_loop (lower s) (FICTION_FAKE_INDICATORS cfg)
              (keyword_total cfg (lower s))))))"
proof -
  have r: "0 \<le> score_text cfg s \<and> score_text cfg s \<le> 1"
    by (simp add: score_text_def Let_def)
  have e: "score_text cfg [] = 0"
    by (simp add: score_text_def)
  have w: "(\<forall>c \<in> set s. is_space c) \<longrightarrow> score_text cfg s = 0"
    using strip_all_space [of s] by (simp only: score_text_def) simp
  have c: "s \<noteq> [] \<and> strip s \<noteq> [] \<longrightarrow>
        score_text cfg s =
          max 0 (min 1 (bonus_loop (lower s) (sorted_items (REAL_CONTENT_WEIGHTS cfg))
            (fiction_loop (lower s) (FICTION_FAKE_INDICATORS cfg)
              (keyword_total cfg (lower s)))))"
    by (simp only: score_text_def Let_def) simp
  from r e w c show ?thesis by blast
qed

theorem score_text_range_witness:
  "list_all is_space ''   '' \<and> score_text example_config ''   '' = 0
   \<and> ''Gore film'' \<noteq> [] \<and> strip ''Gore film'' \<noteq> []
   \<and> score_text example_config ''Gore film'' = 0.15"
proof -
  have h1: "\<forall>c \<in> set ''   ''. is_space c"
    by code_simp
  have h2: "''Gore film'' \<noteq> [] \<and> strip ''Gore film'' \<noteq> []"
    by code_simp
  have "score_text example_config ''   '' = 0"
    using score_text_range [of example_config "''   ''"] h1 by blast
  moreover have "score_text example_config ''Gore film'' =
      max 0 (min 1 (bonus_loop (lower ''Gore film'') (sorted_items (REAL_CONTENT_WEIGHTS example_config))
        (fiction_loop (lower ''Gore film'') (FICTION_FAKE_INDICATORS example_config)
          (keyword_total example_config (lower ''Gore film'')))))"
    using score_text_range [of example_config "''Gore film''"] h2 by blast
  moreover have "max 0 (min 1 (bonus_loop (lower ''Gore film'') (sorted_items (REAL_CONTENT_WEIGHTS example_config))
        (fiction_loop (lower ''Gore film'') (FICTION_FAKE_INDICATORS example_config)
          (keyword_total example_config (lower ''Gore film''))))) = (0.15 :: real)"
    by code_simp
  ultimately show ?thesis
    using h1 h2 by (simp only: list_all_iff) simp
qed

section \<open>Properties of the image score\<close>

lemma count_loop_filter: "count_loop pixels c = c + length (filter blood_like pixels)"
  by (induction pixels c rule: count_loop.induct)
    (simp_all add: blood_like_def bright_red_def dark_red_def)

lemma pixels_percentage_eq:
  "pixels_percentage pixels =
     (if pixels = [] then 0
      else real (length (filter blood_like pixels)) / real (length pixels) * 100)"
  by (simp add: pixels_percentage_def Let_def count_loop_filter)

lemma pixels_percentage_range: "0 \<le> pixels_percentage pixels \<and> pixels_percentage pixels \<le> 100"
proof (cases "pixels = []")
  case True
  then show ?thesis by (simp add: pixels_percentage_eq)
next
  case False
  have le: "real (length (filter blood_like pixels)) \<le> real (length pixels)"
    by simp
  have pos: "0 < real (length pixels)"
    using False by simp
  have "real (length (filter blood_like pixels)) / real (length pixels) * 100 \<le> 100"
    using le pos by (simp add: pos_divide_le_eq)
  then show ?thesis using False by (simp add: pixels_percentage_eq)
qed

lemma blood_red_percentage_cases:
  "blood_red_percentage w url =
     (case fetch_pixels w url of
        Inl e \<Rightarrow> Inr (False, 0)
      | Inr pixels \<Rightarrow> Inr (True, pixels_percentage pixels))"
  by (simp add: blood_red_percentage_def try_except_def split: sum.split)

lemma image_gore_score_cases:
  "image_gore_score cfg w url =
     (case fetch_pixels w url of
        Inl e \<Rightarrow> Inr 0
      | Inr pixels \<Rightarrow>
          Inr (min 1 (pixels_percentage pixels / max 0.01 (IMAGE_RED_PERCENT_TO_SEVERITY cfg))))"
proof -
  have "max 0.01 (IMAGE_RED_PERCENT_TO_SEVERITY cfg) \<noteq> 0"
    by (simp add: max_def)
  then show ?thesis
    by (simp add: image_gore_score_def blood_red_percentage_cases try_except_def py_truediv_def
        Let_def split: sum.split)
qed

lemma score_image_cases:
  "score_image_from_url cfg w url =
     (case fetch_pixels w url of
        Inl e \<Rightarrow> Inr 0
      | Inr pixels \<Rightarrow>
          Inr (min 1 (pixels_percentage pixels / max 0.01 (IMAGE_RED_PERCENT_TO_SEVERITY cfg))))"
proof (cases "fetch_pixels w url")
  case (Inl e)
  then show ?thesis
    by (simp add: score_image_from_url_def image_gore_score_cases)
next
  case (Inr pixels)
  have "0 < max 0.01 (IMAGE_RED_PERCENT_TO_SEVERITY cfg)"
    by (simp add: max_def)
  then have "0 \<le> pixels_percentage pixels / max 0.01 (IMAGE_RED_PERCENT_TO_SEVERITY cfg)"
    using pixels_percentage_range [of pixels] by simp
  then show ?thesis
    using Inr by (simp add: score_image_from_url_def image_gore_score_cases)
qed

text \<open>
  C4: the percentage is the number of pixels that are bright red or dark red, divided
  by the number of pixels and multiplied by 100, and is 0 for an image without pixels.
  For an image that was fetched and decoded the image score is
  \<open>min 1 (percentage / max 0.01 IMAGE_RED_PERCENT_TO_SEVERITY)\<close>; an image of bright red
  pixels only scores exactly 1 when the reference is 25.
\<close>

theorem image_score_formula:
  "pixels_percentage pixels =
     (if pixels = [] then 0
      else real (length (filter blood_like pixels)) / real (length pixels) * 100)
   \<and> (fetch_pixels w url = Inr pixels \<longrightarrow>
        image_gore_score cfg w url =
          Inr (min 1 (pixels_percentage pixels / max 0.01 (IMAGE_RED_PERCENT_TO_SEVERITY cfg)))
        \<and> score_image_from_url cfg w url =
          Inr (min 1 (pixels_percentage pixels / max 0.01 (IMAGE_RED_PERCENT_TO_SEVERITY cfg))))
   \<and> (fetch_pixels w url = Inr pixels \<and> pixels \<noteq> [] \<and> (\<forall>p \<in> set pixels. bright_red p)
        \<and> IMAGE_RED_PERCENT_TO_SEVERITY cfg = 25 \<longrightarrow>
        score_image_from_url cfg w url = Inr 1)"
proof -
  have red: "score_image_from_url cfg w url = Inr 1"
    if h: "fetch_pixels w url = Inr pixels" "pixels \<noteq> []" "\<forall>p \<in> set pixels. bright_red p"
      "IMAGE_RED_PERCENT_TO_SEVERITY cfg = 25"
  proof -
    have "filter blood_like pixels = pixels"
      using h(3) by (simp add: blood_like_def)
    then have "pixels_percentage pixels = 100"
      using h(2) by (simp add: pixels_percentage_eq)
    then show ?thesis
      using h(1,4) by (simp add: score_image_cases)
  qed
  show ?thesis
    using red pixels_percentage_eq [of pixels]
    by (auto simp: score_image_cases image_gore_score_cases)
qed

theorem image_score_formula_witness:
  "fetch_pixels example_world ''http://img/red.png'' = Inr (replicate 4 (200, 10, 10))
   \<and> replicate 4 (200, 10, 10) \<noteq> ([] :: pixel list)
   \<and> list_all bright_red (replicate 4 (200, 10, 10))
   \<and> IMAGE_RED_PERCENT_TO_SEVERITY example_config = 25
   \<and> score_image_from_url example_config example_world ''http://img/red.png'' = Inr 1
   \<and> fetch_pixels example_world ''http://img/part.png''
       = Inr (replicate 7 (200, 10, 10) @ replicate 33 (0, 0, 0))
   \<and> score_image_from_url example_config example_world ''http://img/part.png'' = Inr 0.7"
proof -
  let ?red = "replicate 4 (200, 10, 10) :: pixel list"
  let ?part = "replicate 7 (200, 10, 10) @ replicate 33 (0, 0, 0) :: pixel list"
  have h1: "fetch_pixels example_world ''http://img/red.png'' = Inr ?red"
    by code_simp
  have h2: "?red \<noteq> []"
    by code_simp
  have h3: "\<forall>p \<in> set ?red. bright_red p"
    by code_simp
  have h4: "IMAGE_RED_PERCENT_TO_SEVERITY example_config = 25"
    by (simp add: example_config_def)
  have h5: "fetch_pixels example_world ''http://img/part.png'' = Inr ?part"
    by code_simp
  have a: "score_image_from_url example_config example_world ''http://img/red.png'' = Inr 1"
    using image_score_formula [of ?red example_world "''http://img/red.png''" example_config]
      h1 h2 h3 h4 by blast
  have "score_image_from_url example_config example_world ''http://img/part.png''
      = Inr (min 1 (pixels_percentage ?part / max 0.01 (IMAGE_RED_PERCENT_TO_SEVERITY example_config)))"
    using image_score_formula [of ?part example_world "''http://img/part.png''" example_config]
      h5 by blast
  also have "\<dots> = Inr 0.7"
    by code_simp
  finally show ?thesis
    using h1 h2 h3 h4 h5 a by (simp only: list_all_iff) blast
qed

text \<open>
  C3, as amended: \<open>score_image_from_url\<close> returns a value for every url, whatever the
  network and the decoder do, and the value lies in [0, 1]. It is 0 when the request
  raises, when the response has a status from 400 to 599, which are the statuses on
  which \<open>raise_for_status\<close> raises, and when the bytes do not decode. A response with
  any other status is decoded and scored like a successful one.
\<close>

theorem image_score_never_raises:
  "(\<exists>v. score_image_from_url cfg w url = Inr v \<and> 0 \<le> v \<and> v \<le> 1)
   \<and> (requests_get w url = Inl e \<longrightarrow> score_image_from_url cfg w url = Inr 0)
   \<and> (requests_get w url = Inr resp \<and> 400 \<le> status_code resp \<and> status_code resp < 600 \<longrightarrow>
        score_image_from_url cfg w url = Inr 0)
   \<and> (requests_get w url = Inr resp \<and> image_open_rgb w (content resp) = Inl e' \<longrightarrow>
        score_image_from_url cfg w url = Inr 0)
   \<and> (requests_get w url = Inr resp \<and> \<not> (400 \<le> status_code resp \<and> status_code resp < 600)
        \<and> image_open_rgb w (content resp) = Inr pixels \<longrightarrow>
        score_image_from_url cfg w url =
          Inr (min 1 (pixels_percentage pixels / max 0.01 (IMAGE_RED_PERCENT_TO_SEVERITY cfg))))"
proof -
  have tot: "\<exists>v. score_image_from_url cfg w url = Inr v \<and> 0 \<le> v \<and> v \<le> 1"
  proof (cases "fetch_pixels w url")
    case (Inl x)
    then show ?thesis by (simp add: score_image_cases)
  next
    case (Inr pixels)
    have "0 < max 0.01 (IMAGE_RED_PERCENT_TO_SEVERITY cfg)"
      by (simp add: max_def)
    then have "0 \<le> pixels_percentage pixels / max 0.01 (IMAGE_RED_PERCENT_TO_SEVERITY cfg)"
      using pixels_percentage_range [of pixels] by simp
    then show ?thesis
      using Inr by (simp add: score_image_cases)
  qed
  have req: "requests_get w url = Inl e \<longrightarrow> score_image_from_url cfg w url = Inr 0"
    by (simp add: score_image_cases fetch_pixels_def)
  have st: "requests_get w url = Inr resp \<and> 400 \<le> status_code resp \<and> status_code resp < 600 \<longrightarrow>
        score_image_from_url cfg w url = Inr 0"
    by (simp add: score_image_cases fetch_pixels_def raise_for_status_def)
  have dec: "requests_get w url = Inr resp \<and> image_open_rgb w (content resp) = Inl e' \<longrightarrow>
        score_image_from_url cfg w url = Inr 0"
    by (simp add: score_image_cases fetch_pixels_def raise_for_status_def)
  have other: "requests_get w url = Inr resp \<and> \<not> (400 \<le> status_code resp \<and> status_code resp < 600)
        \<and> image_open_rgb w (content resp) = Inr pixels \<longrightarrow>
        score_image_from_url cfg w url =
          Inr (min 1 (pixels_percentage pixels / max 0.01 (IMAGE_RED_PERCENT_TO_SEVERITY cfg)))"
    by (auto simp: score_image_cases fetch_pixels_def raise_for_status_def)
  from tot req st dec other show ?thesis by blast
qed

text \<open>
  The claim as it was stated asks for 0 on every status that is not a success; a
  response with status 300 that carries an all-red image scores 1.
\<close>

theorem image_score_status_counterexample:
  "requests_get redirect_world ''http://img/moved.png'' = Inr \<lparr> status_code = 300, content = ''RED'' \<rparr>
   \<and> score_image_from_url example_config redirect_world ''http://img/moved.png'' = Inr 1
   \<and> score_image_from_url example_config redirect_world ''http://img/moved.png'' \<noteq> Inr 0"
  by code_simp

theorem image_score_never_raises_witness:
  "requests_get example_world ''http://nowhere'' = Inl RequestException
   \<and> score_image_from_url example_config example_world ''http://nowhere'' = Inr 0
   \<and> requests_get example_world ''http://img/gone.png'' = Inr \<lparr> status_code = 404, content = ''RED'' \<rparr>
   \<and> score_image_from_url example_config example_world ''http://img/gone.png'' = Inr 0
   \<and> requests_get example_world ''http://img/junk.png'' = Inr \<lparr> status_code = 200, content = ''junk'' \<rparr>
   \<and> image_open_rgb example_world ''junk'' = Inl UnidentifiedImageError
   \<and> score_image_from_url example_config example_world ''http://img/junk.png'' = Inr 0
   \<and> requests_get redirect_world ''http://img/moved.png'' = Inr \<lparr> status_code = 300, content = ''RED'' \<rparr>
   \<and> image_open_rgb redirect_world ''RED'' = Inr (replicate 4 (200, 10, 10))
   \<and> score_image_from_url example_config redirect_world ''http://img/moved.png'' = Inr 1"
proof -
  have h1: "requests_get example_world ''http://nowhere'' = Inl RequestException"
    by (simp add: example_world_def)
  have h2: "requests_get example_world ''http://img/gone.png'' = Inr \<lparr> status_code = 404, content = ''RED'' \<rparr>"
    by (simp add: example_world_def)
  have h3: "requests_get example_world ''http://img/junk.png'' = Inr \<lparr> status_code = 200, content = ''junk'' \<rparr>"
    by (simp add: example_world_def)
  have h4: "image_open_rgb example_world ''junk'' = Inl UnidentifiedImageError"
    by (simp add: example_world_def)
  have a: "score_image_from_url example_config example_world ''http://nowhere'' = Inr 0"
    using image_score_never_raises [of example_config example_world "''http://nowhere''" RequestException]
      h1 by blast
  have b: "score_image_from_url example_config example_world ''http://img/gone.png'' = Inr 0"
    using image_score_never_raises [of example_config example_world "''http://img/gone.png''" _
        "\<lparr> status_code = 404, content = ''RED'' \<rparr>"] h2 by simp
  have c: "score_image_from_url example_config example_world ''http://img/junk.png'' = Inr 0"
    using image_score_never_raises [of example_config example_world "''http://img/junk.png''" _
        "\<lparr> status_code = 200, content = ''junk'' \<rparr>" UnidentifiedImageError] h3 h4 by simp
  have h5: "requests_get redirect_world ''http://img/moved.png'' = Inr \<lparr> status_code = 300, content = ''RED'' \<rparr>"
    by (simp add: redirect_world_def)
  have h6: "image_open_rgb redirect_world ''RED'' = Inr (replicate 4 (200, 10, 10))"
    by (simp add: redirect_world_def)
  have "score_image_from_url example_config redirect_world ''http://img/moved.png''
      = Inr (min 1 (pixels_percentage (replicate 4 (200, 10, 10))
          / max 0.01 (IMAGE_RED_PERCENT_TO_SEVERITY example_config)))"
    using image_score_never_raises [of example_config redirect_world "''http://img/moved.png''" _
        "\<lparr> status_code = 300, content = ''RED'' \<rparr>" _ "replicate 4 (200, 10, 10)"] h5 h6 by simp
  also have "\<dots> = Inr 1"
    by code_simp
  finally have d: "score_image_from_url example_config redirect_world ''http://img/moved.png'' = Inr 1" .
  from h1 h2 h3 h4 h5 h6 a b c d show ?thesis by blast
qed

section \<open>Properties of the article score\<close>

text \<open>
  C2: the text score of an article is that of its title and its description joined by
  one space, a missing one counting as the empty string. \<open>score_article\<close> returns the
  text score when \<open>include_image\<close> is false and when the image url is missing or empty;
  otherwise the image is scored and the larger of the two scores is returned, so that a
  text score of 0.3 and an image score of 0.7 give 0.7.
\<close>

theorem score_article_combination:
  "or_empty None = [] \<and> or_empty (Some str) = str
   \<and> (\<not> include_image \<or> urlToImage art = None \<or> urlToImage art = Some [] \<longrightarrow>
        score_article cfg w art include_image =
          Inr (score_text cfg (or_empty (title art) @ '' '' @ or_empty (description art))))
   \<and> (include_image \<and> urlToImage art = Some u \<and> u \<noteq> [] \<longrightarrow>
        (\<exists>img. score_image_from_url cfg w u = Inr img
           \<and> score_article cfg w art include_image =
               Inr (max (score_text cfg (or_empty (title art) @ '' '' @ or_empty (description art))) img)))
   \<and> (include_image \<and> urlToImage art = Some u \<and> u \<noteq> []
        \<and> score_text cfg (or_empty (title art) @ '' '' @ or_empty (description art)) = 0.3
        \<and> score_image_from_url cfg w u = Inr 0.7 \<longrightarrow>
        score_article cfg w art include_image = Inr 0.7)"
proof -
  obtain img where img: "score_image_from_url cfg w u = Inr img"
    by (cases "fetch_pixels w u") (auto simp: score_image_cases)
  have e: "or_empty None = [] \<and> or_empty (Some str) = str"
    by (simp add: or_empty_def)
  have a: "\<not> include_image \<or> urlToImage art = None \<or> urlToImage art = Some [] \<longrightarrow>
        score_article cfg w art include_image =
          Inr (score_text cfg (or_empty (title art) @ '' '' @ or_empty (description art)))"
    by (auto simp: score_article_def Let_def)
  have b: "include_image \<and> urlToImage art = Some u \<and> u \<noteq> [] \<longrightarrow>
        (\<exists>img. score_image_from_url cfg w u = Inr img
           \<and> score_article cfg w art include_image =
               Inr (max (score_text cfg (or_empty (title art) @ '' '' @ or_empty (description art))) img))"
    using img by (auto simp: score_article_def Let_def)
  have c: "include_image \<and> urlToImage art = Some u \<and> u \<noteq> []
        \<and> score_text cfg (or_empty (title art) @ '' '' @ or_empty (description art)) = 0.3
        \<and> score_image_from_url cfg w u = Inr 0.7 \<longrightarrow>
        score_article cfg w art include_image = Inr 0.7"
    by (auto simp: score_article_def Let_def)
  from e a b c show ?thesis by blast
qed

theorem score_article_combination_witness:
  "urlToImage example_article = Some ''http://img/part.png''
   \<and> score_text example_config (or_empty (title example_article) @ '' '' @ or_empty (description example_article)) = 0.3
   \<and> score_image_from_url example_config example_world ''http://img/part.png'' = Inr 0.7
   \<and> score_article example_config example_world example_article True = Inr 0.7
   \<and> score_article example_config example_world example_article False = Inr 0.3
   \<and> score_article example_config example_world (example_article\<lparr> urlToImage := Some [] \<rparr>) True = Inr 0.3"
proof -
  let ?t = "or_empty (title example_article) @ '' '' @ or_empty (description example_article)"
  have h1: "urlToImage example_article = Some ''http://img/part.png''"
    by (simp add: example_article_def)
  have h2: "score_text example_config ?t = 0.3"
    by code_simp
  have h3: "score_image_from_url example_config example_world ''http://img/part.png'' = Inr 0.7"
    by code_simp
  have h4: "urlToImage (example_article\<lparr> urlToImage := Some [] \<rparr>) = Some []"
    by simp
  have t': "or_empty (title (example_article\<lparr> urlToImage := Some [] \<rparr>)) @ '' ''
      @ or_empty (description (example_article\<lparr> urlToImage := Some [] \<rparr>)) = ?t"
    by simp
  have a: "score_article example_config example_world example_article True = Inr 0.7"
    using score_article_combination [of _ True example_article example_config example_world
        "''http://img/part.png''"] h1 h2 h3 by simp
  have b: "score_article example_config example_world example_article False = Inr 0.3"
    using score_article_combination [of _ False example_article example_config example_world] h2
    by simp
  have c: "score_article example_config example_world (example_article\<lparr> urlToImage := Some [] \<rparr>) True = Inr 0.3"
    using score_article_combination [of _ True "example_article\<lparr> urlToImage := Some [] \<rparr>"
        example_config example_world] h2 h4 t' by simp
  from h1 h2 h3 a b c show ?thesis by blast
qed

section \<open>Properties of the display value\<close>

lemma round_half_even_bounds:
  "\<bar>of_int (round_half_even x) - x\<bar> \<le> 1/2"
proof -
  define f where "f = \<lfloor>x\<rfloor>"
  have lo: "of_int f \<le> x" and hi: "x < of_int f + 1"
    unfolding f_def by linarith+
  have "round_half_even x =
      (if x - of_int f < 1/2 then f else if x - of_int f > 1/2 then f + 1
       else if even f then f else f + 1)"
    by (simp add: round_half_even_def Let_def f_def)
  then show ?thesis
    using lo hi by (auto simp: abs_if)
qed

lemma py_round2_near: "\<bar>py_round2 x - x\<bar> \<le> 1/200"
proof -
  have "\<bar>of_int (round_half_even (x * 100)) - x * 100\<bar> \<le> 1/2"
    by (rule round_half_even_bounds)
  then show ?thesis
    by (simp add: py_round2_def abs_if field_simps split: if_splits)
qed

lemma py_round2_grid: "py_round2 x * 100 = of_int (round_half_even (x * 100))"
  by (simp add: py_round2_def)

lemma round_half_even_int: "round_half_even (of_int n) = n"
  by (simp add: round_half_even_def)

lemma py_round2_zero: "py_round2 0 = 0"
  using round_half_even_int [of 0] by (simp add: py_round2_def)

lemma py_round2_one: "py_round2 1 = 1"
  using round_half_even_int [of 100] by (simp add: py_round2_def)

text \<open>
  C9, as amended: \<open>clamp_severity_display\<close> rounds the score to the nearest multiple of
  1/100 and clamps the result into [\<open>SEVERITY_MIN\<close>, \<open>SEVERITY_MAX\<close>]. With
  \<open>SEVERITY_MIN \<le> SEVERITY_MAX\<close> every value returned lies between the two bounds; with
  \<open>0 < SEVERITY_MIN\<close> in addition the score 0 is displayed as \<open>SEVERITY_MIN\<close>. The score 1
  is displayed as \<open>max SEVERITY_MIN (min SEVERITY_MAX 1)\<close>, which is \<open>SEVERITY_MAX\<close> when
  \<open>SEVERITY_MAX \<le> 1\<close>.
\<close>

theorem display_clamp:
  "clamp_severity_display cfg score = max (SEVERITY_MIN cfg) (min (SEVERITY_MAX cfg) (py_round2 score))
   \<and> py_round2 score * 100 = of_int (round_half_even (score * 100))
   \<and> \<bar>py_round2 score - score\<bar> \<le> 1/200
   \<and> (SEVERITY_MIN cfg \<le> SEVERITY_MAX cfg \<longrightarrow>
        SEVERITY_MIN cfg \<le> clamp_severity_display cfg score
        \<and> clamp_severity_display cfg score \<le> SEVERITY_MAX cfg)
   \<and> (0 < SEVERITY_MIN cfg \<and> SEVERITY_MIN cfg \<le> SEVERITY_MAX cfg \<longrightarrow>
        clamp_severity_display cfg 0 = SEVERITY_MIN cfg)
   \<and> (0 < SEVERITY_MIN cfg \<and> SEVERITY_MIN cfg \<le> SEVERITY_MAX cfg \<and> SEVERITY_MAX cfg \<le> 1 \<longrightarrow>
        clamp_severity_display cfg 1 = SEVERITY_MAX cfg)
   \<and> clamp_severity_display cfg 1 = max (SEVERITY_MIN cfg) (min (SEVERITY_MAX cfg) 1)"
  using py_round2_near [of score]
  by (simp add: clamp_severity_display_def py_round2_zero py_round2_one py_round2_grid)

text \<open>
  The claim as it was stated asks for \<open>SEVERITY_MAX\<close> at the score 1 under
  \<open>0 < SEVERITY_MIN \<le> SEVERITY_MAX\<close> alone; a display scale from 0.1 to 2 shows 1 there.
\<close>

theorem display_max_counterexample:
  "0 < SEVERITY_MIN wide_display_config
   \<and> SEVERITY_MIN wide_display_config \<le> SEVERITY_MAX wide_display_config
   \<and> clamp_severity_display wide_display_config 1 \<noteq> SEVERITY_MAX wide_display_config"
  by code_simp

theorem display_clamp_witness:
  "0 < SEVERITY_MIN example_config \<and> SEVERITY_MIN example_config \<le> SEVERITY_MAX example_config
   \<and> SEVERITY_MAX example_config \<le> 1
   \<and> clamp_severity_display example_config 0 = 0.1
   \<and> clamp_severity_display example_config 1 = 1
   \<and> 0.1 \<le> clamp_severity_display example_config 0.125
   \<and> clamp_severity_display example_config 0.125 \<le> 1"
proof -
  have h: "0 < SEVERITY_MIN example_config \<and> SEVERITY_MIN example_config \<le> SEVERITY_MAX example_config
      \<and> SEVERITY_MAX example_config \<le> 1"
    by (simp add: example_config_def)
  have v: "SEVERITY_MIN example_config = 0.1 \<and> SEVERITY_MAX example_config = 1"
    by (simp add: example_config_def)
  show ?thesis
    using display_clamp [of example_config "0.125"] h v by simp
qed

section \<open>Properties of the findings table\<close>

text \<open>
  C10: \<open>insert\<close> stores \<open>max 0 (min 1 severity_score)\<close>, a value in [0, 1] whatever score
  the caller passes; when the table exists the statement succeeds, the new row is the
  only row added, and a table whose severities all lie in [0, 1] is still such a table
  afterwards. When the table is missing the statement raises and nothing is stored.
\<close>

theorem insert_stores_clamped_severity:
  "(findings d = None \<longrightarrow>
      insert_finding d now url src mt sev ti pa sn = Inl OperationalError)
   \<and> (findings d = Some rows \<longrightarrow>
        (\<exists>d' kept new_row.
           insert_finding d now url src mt sev ti pa sn = Inr d'
           \<and> findings d' = Some (kept @ [new_row])
           \<and> set kept \<subseteq> set rows
           \<and> row_url new_row = take 2000 url
           \<and> row_severity_score new_row = max 0 (min 1 sev)
           \<and> 0 \<le> row_severity_score new_row \<and> row_severity_score new_row \<le> 1
           \<and> (severities_in_range d \<longrightarrow> severities_in_range d')))"
proof -
  have none: "findings d = None \<longrightarrow>
      insert_finding d now url src mt sev ti pa sn = Inl OperationalError"
    by (simp add: insert_finding_def)
  have some: "\<exists>d' kept new_row.
           insert_finding d now url src mt sev ti pa sn = Inr d'
           \<and> findings d' = Some (kept @ [new_row])
           \<and> set kept \<subseteq> set rows
           \<and> row_url new_row = take 2000 url
           \<and> row_severity_score new_row = max 0 (min 1 sev)
           \<and> 0 \<le> row_severity_score new_row \<and> row_severity_score new_row \<le> 1
           \<and> (severities_in_range d \<longrightarrow> severities_in_range d')"
    if rows: "findings d = Some rows"
  proof -
    define new_row where "new_row = \<lparr> row_id = seq d + 1,
                 row_title = take 500 (or_default ti []),
                 row_url = take 2000 url,
                 row_source_name = take 100 (or_default src ''unknown''),
                 row_media_type = take 50 (or_default mt ''unknown''),
                 row_severity_score = max 0 (min 1 sev),
                 row_published_at = take 50 (or_default pa []),
                 row_snippet = take 2000 (or_default sn []),
                 row_fetched_at = now \<rparr>"
    define kept where "kept = filter (\<lambda>r. row_url r \<noteq> row_url new_row) rows"
    define d' where "d' = \<lparr> findings = Some (kept @ [new_row]), seq = seq d + 1 \<rparr>"
    have r: "insert_finding d now url src mt sev ti pa sn = Inr d'"
      using rows by (simp add: insert_finding_def Let_def d'_def kept_def new_row_def)
    have f: "findings d' = Some (kept @ [new_row])"
      by (simp add: d'_def)
    have k: "set kept \<subseteq> set rows"
      by (auto simp: kept_def)
    have u: "row_url new_row = take 2000 url"
      and v: "row_severity_score new_row = max 0 (min 1 sev)"
      by (simp_all add: new_row_def)
    have b: "0 \<le> row_severity_score new_row \<and> row_severity_score new_row \<le> 1"
      by (simp add: v)
    have inv: "severities_in_range d \<longrightarrow> severities_in_range d'"
      using rows k b by (auto simp: severities_in_range_def f)
    from r f k u v b inv show ?thesis by blast
  qed
  from none some show ?thesis by blast
qed

theorem insert_stores_clamped_severity_witness:
  "findings example_db \<noteq> None \<and> severities_in_range example_db
   \<and> (\<exists>d'. insert_finding example_db ''2024-01-02T00:00:00Z'' ''http://b'' None None 1.7 None None None = Inr d'
        \<and> severities_in_range d'
        \<and> map row_severity_score (the (findings d')) = [0.4, 1])"
proof -
  have h1: "findings example_db = Some (the (findings example_db))"
    by (simp add: example_db_def)
  have h2: "severities_in_range example_db"
    by (simp add: example_db_def severities_in_range_def)
  obtain d' where d': "insert_finding example_db ''2024-01-02T00:00:00Z'' ''http://b'' None None 1.7 None None None = Inr d'"
    and inv: "severities_in_range d'"
    using insert_stores_clamped_severity [of example_db "''2024-01-02T00:00:00Z''" "''http://b''"
        None None "1.7" None None None "the (findings example_db)"] h1 h2 by blast
  have "map row_severity_score (the (findings d')) = [0.4, 1]"
    using d' by (auto simp: insert_finding_def example_db_def Let_def)
  with d' inv h1 h2 show ?thesis by auto
qed

section \<open>Properties of the colour\<close>

subsection \<open>Rounding to doubles\<close>


lemma pow2_le_imp: "(2::real) powi m \<le> 2 powi n \<Longrightarrow> m \<le> n"
  using power_int_strict_increasing [of n m "2::real"] by (cases "m \<le> n") auto





























subsection \<open>Parsing and formatting of colours\<close>






lemma hex_upper_small: "n < 16 \<Longrightarrow> hex_upper n = [hex_upper_digit n]"
  by simp







subsection \<open>Interpolation of a channel\<close>

































end
